theory Spec2Isabelle
  imports Complex_Main "HOL-Library.AList"
begin

section \<open>JavaScript values and JSON documents\<close>

text \<open>
  The client (\<^verbatim>\<open>src/client/nano-client.ts\<close>) is TypeScript; its types are erased at run
  time, so positional arguments are modelled as run-time values. An object is the list of its
  own enumerable properties, with distinct keys, in the order JavaScript lists them. \<open>VCyclic\<close> is a reference
  to an object that reaches itself again through its own properties: nothing in the client
  reads inside such an object, only \<^verbatim>\<open>JSON.stringify\<close> walks into it and throws. Finite
  numbers are rationals (every finite double is one). Functions, symbols and objects with a
  \<^verbatim>\<open>toJSON\<close> method are not modelled.
\<close>

type_synonym 'v props = "(string \<times> 'v) list"

datatype jsval =
    VUndefined
  | VNull
  | VBool bool
  | VNum rat
  | VNaN
  | VInfinity bool
  | VBigInt int
  | VStr string
  | VArr "jsval list"
  | VObj "(string \<times> jsval) list"
  | VCyclic

text \<open>
  A JSON document: what a JSON text denotes. The request body, a string in the source, is
  modelled by the document it encodes; the decoded response body is a document as well.
\<close>

datatype json =
    JNull
  | JBool bool
  | JNum rat
  | JStr string
  | JArr "json list"
  | JObj "(string \<times> json) list"

text \<open>\<open>Error e\<close> is \<^verbatim>\<open>new Error(e)\<close>: a plain Error whose message is the text of \<open>e\<close>.\<close>

datatype js_error = TypeError | SyntaxError | Error js_error

text \<open>A call either throws synchronously or returns a value to its caller.\<close>

datatype 'a completion = Throws js_error | Returns 'a

text \<open>What a promise is rejected with: a thrown error, a response body, or the transport's error.\<close>

datatype AxiosError = AxiosError string

datatype reason = Exception js_error | Body json | Transport AxiosError

datatype 'a promise = Pending | Fulfilled 'a | Rejected reason

subsection \<open>\<^verbatim>\<open>JSON.stringify\<close>\<close>

text \<open>
  \<open>serialize\<close> is the property serialization of \<^verbatim>\<open>JSON.stringify\<close>: \<open>Inr None\<close> is the
  result \<^verbatim>\<open>undefined\<close> (the property is left out of an object, and written \<^verbatim>\<open>null\<close> in an
  array), \<open>Inl TypeError\<close> the exception for a BigInt or a circular structure. Non-finite
  numbers are written \<^verbatim>\<open>null\<close>.
\<close>

fun serialize :: "jsval \<Rightarrow> js_error + json option"
  and serialize_props :: "jsval props \<Rightarrow> js_error + json props"
  and serialize_elems :: "jsval list \<Rightarrow> js_error + json list"
where
  "serialize VUndefined = Inr None"
| "serialize VNull = Inr (Some JNull)"
| "serialize (VBool b) = Inr (Some (JBool b))"
| "serialize (VNum n) = Inr (Some (JNum n))"
| "serialize VNaN = Inr (Some JNull)"
| "serialize (VInfinity s) = Inr (Some JNull)"
| "serialize (VBigInt n) = Inl TypeError"
| "serialize (VStr s) = Inr (Some (JStr s))"
| "serialize (VArr xs) =
     (case serialize_elems xs of Inl e \<Rightarrow> Inl e | Inr js \<Rightarrow> Inr (Some (JArr js)))"
| "serialize (VObj kvs) =
     (case serialize_props kvs of Inl e \<Rightarrow> Inl e | Inr js \<Rightarrow> Inr (Some (JObj js)))"
| "serialize VCyclic = Inl TypeError"
| "serialize_props [] = Inr []"
| "serialize_props (p # kvs) =
     (case serialize (snd p) of
        Inl e \<Rightarrow> Inl e
      | Inr None \<Rightarrow> serialize_props kvs
      | Inr (Some j) \<Rightarrow>
          (case serialize_props kvs of Inl e \<Rightarrow> Inl e | Inr js \<Rightarrow> Inr ((fst p, j) # js)))"
| "serialize_elems [] = Inr []"
| "serialize_elems (v # vs) =
     (case serialize v of
        Inl e \<Rightarrow> Inl e
      | Inr r \<Rightarrow>
          (case serialize_elems vs of
             Inl e \<Rightarrow> Inl e
           | Inr js \<Rightarrow> Inr ((case r of None \<Rightarrow> JNull | Some j \<Rightarrow> j) # js)))"

text \<open>\<^verbatim>\<open>JSON.stringify\<close> of an object, its only use in the source.\<close>

definition JSON_stringify :: "jsval props \<Rightarrow> js_error + json" where
  "JSON_stringify obj =
     (case serialize_props obj of Inl e \<Rightarrow> Inl e | Inr js \<Rightarrow> Inr (JObj js))"

text \<open>A JSON document as the JavaScript value that encodes to it.\<close>

primrec embed :: "json \<Rightarrow> jsval" where
  "embed JNull = VNull"
| "embed (JBool b) = VBool b"
| "embed (JNum n) = VNum n"
| "embed (JStr s) = VStr s"
| "embed (JArr xs) = VArr (map embed xs)"
| "embed (JObj kvs) = VObj (map (map_prod id embed) kvs)"

definition embed_props :: "json props \<Rightarrow> jsval props" where
  "embed_props kvs = map (map_prod id embed) kvs"

subsection \<open>Object literals, spread and \<^verbatim>\<open>Object.assign\<close>\<close>

text \<open>
  The own keys of an object are listed with the array indices first, in ascending numeric
  order, and the other keys after them in the order of their creation. An array index is a
  canonical decimal numeral below \<open>2\<^sup>3\<^sup>2 - 1\<close>.
\<close>

definition is_digit :: "char \<Rightarrow> bool" where
  "is_digit c = (c \<in> set ''0123456789'')"

definition decimal_value :: "string \<Rightarrow> int" where
  "decimal_value k = foldl (\<lambda>n c. 10 * n + (of_char c - 48)) 0 k"

definition is_array_index :: "string \<Rightarrow> bool" where
  "is_array_index k =
     (k \<noteq> [] \<and> list_all is_digit k \<and> (if hd k = CHR ''0'' then k = ''0'' else True)
      \<and> decimal_value k < 4294967295)"

definition precedes :: "string \<Rightarrow> string \<Rightarrow> bool" where
  "precedes a k = (is_array_index a \<and> decimal_value a < decimal_value k)"

text \<open>
  Defining a property replaces the value of an existing key in place; a new array index
  goes after the smaller indices, and any other new key at the end.
\<close>

definition set_prop :: "'v props \<Rightarrow> string \<Rightarrow> 'v \<Rightarrow> 'v props" where
  "set_prop obj k v =
     (if k \<in> fst ` set obj then map (\<lambda>p. if fst p = k then (k, v) else p) obj
      else if is_array_index k then
        takeWhile (\<lambda>p. precedes (fst p) k) obj @ (k, v) # dropWhile (\<lambda>p. precedes (fst p) k) obj
      else obj @ [(k, v)])"

text \<open>
  The spread \<^verbatim>\<open>...source\<close> in an object literal defines every own property of the source on
  the new object, in the source's order.
\<close>

definition copy_props :: "'v props \<Rightarrow> 'v props \<Rightarrow> 'v props" where
  "copy_props target source = foldl (\<lambda>t p. set_prop t (fst p) (snd p)) target source"

text \<open>
  \<^verbatim>\<open>Object.assign\<close> assigns instead of defining. The difference is the key \<^verbatim>\<open>__proto__\<close>: on
  a target with no own property of that name the assignment reaches the setter inherited
  from \<^verbatim>\<open>Object.prototype\<close> and creates no own property. (The setter replaces the target's
  prototype when the value is an object or \<^verbatim>\<open>null\<close>; prototypes are not modelled, and a
  target is taken to keep the prototype of an object literal.)
\<close>

definition assign_prop :: "'v props \<Rightarrow> string \<Rightarrow> 'v \<Rightarrow> 'v props" where
  "assign_prop obj k v =
     (if k = ''__proto__'' \<and> ''__proto__'' \<notin> fst ` set obj then obj else set_prop obj k v)"

definition Object_assign :: "'v props \<Rightarrow> 'v props \<Rightarrow> 'v props" where
  "Object_assign target source = foldl (\<lambda>t p. assign_prop t (fst p) (snd p)) target source"

text \<open>
  A member of an object literal: \<^verbatim>\<open>key: value\<close> (or the shorthand \<^verbatim>\<open>key\<close>) for one of the
  literal keys of the source, none of which is \<^verbatim>\<open>__proto__\<close>, or the spread \<^verbatim>\<open>...source\<close> of
  an object or of \<^verbatim>\<open>undefined\<close> (\<open>None\<close>), which adds nothing.
\<close>

datatype member = Prop string jsval | Spread "jsval props option"

fun define_member :: "jsval props \<Rightarrow> member \<Rightarrow> jsval props" where
  "define_member obj (Prop k v) = set_prop obj k v"
| "define_member obj (Spread None) = obj"
| "define_member obj (Spread (Some source)) = copy_props obj source"

definition object_literal :: "member list \<Rightarrow> jsval props" where
  "object_literal ms = foldl define_member [] ms"

text \<open>A parameter default \<^verbatim>\<open>x = d\<close>: taken when the argument is omitted or \<^verbatim>\<open>undefined\<close>.\<close>

definition default_param :: "jsval \<Rightarrow> jsval \<Rightarrow> jsval" where
  "default_param v d = (if v = VUndefined then d else v)"

section \<open>The client\<close>

record NanoClient =
  nodeAddress :: "string option"
  requestHeaders :: "jsval props"
  defaultHeaders :: "jsval props"

record client_options =
  opt_url :: "string option"
  opt_requestHeaders :: "jsval props option"

text \<open>The configuration handed to \<^verbatim>\<open>axios.request\<close>, and the part of its response the client reads.\<close>

record request =
  req_method :: string
  req_url :: "string option"
  req_data :: json
  req_headers :: "jsval props"

record AxiosResponse =
  data :: json
  status :: nat

text \<open>
  The world outside the repository: what \<^verbatim>\<open>axios.request\<close> does with a request (its promise
  stays pending, is fulfilled with a response, or is rejected), and \<^verbatim>\<open>JSON.parse\<close>.
\<close>

record env =
  axios_request :: "request \<Rightarrow> AxiosResponse promise"
  JSON_parse :: "string \<Rightarrow> js_error + json"

text \<open>The field initialiser of \<^verbatim>\<open>defaultHeaders\<close>.\<close>

definition initial_defaultHeaders :: "jsval props" where
  "initial_defaultHeaders = [(''content-type'', VStr ''application/json'')]"

text \<open>
  \<^verbatim>\<open>options?.url\<close> is \<^verbatim>\<open>undefined\<close> when \<^verbatim>\<open>options\<close> is; \<^verbatim>\<open>options?.requestHeaders || {}\<close>
  is the empty object when the headers are missing (an object is always truthy).
\<close>

definition constructor :: "client_options option \<Rightarrow> NanoClient completion" where
  "constructor options =
     Returns \<lparr>nodeAddress = Option.bind options opt_url,
              requestHeaders =
                (case Option.bind options opt_requestHeaders of None \<Rightarrow> [] | Some h \<Rightarrow> h),
              defaultHeaders = initial_defaultHeaders\<rparr>"

subsection \<open>\<^verbatim>\<open>_buildRPCBody\<close>\<close>

definition envelope :: "string \<Rightarrow> jsval props \<Rightarrow> jsval props" where
  "envelope action params = object_literal [Prop ''action'' (VStr action), Spread (Some params)]"

definition buildRPCBody :: "string \<Rightarrow> jsval props option \<Rightarrow> js_error + json" where
  "buildRPCBody action params =
     (let params = (case params of None \<Rightarrow> [] | Some p \<Rightarrow> p) in
      case JSON_stringify (envelope action params) of
        Inl e \<Rightarrow> Inl (Error e)
      | Inr body \<Rightarrow> Inr body)"

subsection \<open>\<^verbatim>\<open>_send\<close>\<close>

text \<open>\<^verbatim>\<open>resolve\<close> and \<^verbatim>\<open>reject\<close> settle a pending promise and leave a settled one alone.\<close>

definition resolve :: "json \<Rightarrow> json promise \<Rightarrow> json promise" where
  "resolve v p = (case p of Pending \<Rightarrow> Fulfilled v | _ \<Rightarrow> p)"

definition reject :: "reason \<Rightarrow> json promise \<Rightarrow> json promise" where
  "reject r p = (case p of Pending \<Rightarrow> Rejected r | _ \<Rightarrow> p)"

text \<open>
  Reading a property of a decoded body throws on \<^verbatim>\<open>null\<close>; a string, number, boolean or
  array has no property of the name read here (\<^verbatim>\<open>error\<close>).
\<close>

fun get_prop :: "json \<Rightarrow> string \<Rightarrow> js_error + json option" where
  "get_prop JNull k = Inl TypeError"
| "get_prop (JObj kvs) k = Inr (map_of kvs k)"
| "get_prop (JBool b) k = Inr None"
| "get_prop (JNum n) k = Inr None"
| "get_prop (JStr s) k = Inr None"
| "get_prop (JArr xs) k = Inr None"

fun truthy :: "json option \<Rightarrow> bool" where
  "truthy None = False"
| "truthy (Some JNull) = False"
| "truthy (Some (JBool b)) = b"
| "truthy (Some (JNum n)) = (n \<noteq> 0)"
| "truthy (Some (JStr s)) = (s \<noteq> [])"
| "truthy (Some (JArr xs)) = True"
| "truthy (Some (JObj kvs)) = True"

text \<open>
  The callback given to \<^verbatim>\<open>then\<close>, run on the outer promise \<open>p\<close>: \<open>Inl e\<close> when it throws,
  else the outer promise as the callback leaves it.
\<close>

definition on_response :: "env \<Rightarrow> AxiosResponse \<Rightarrow> json promise \<Rightarrow> js_error + json promise" where
  "on_response env response p =
     (case get_prop (data response) ''error'' of
        Inl e \<Rightarrow> Inl e
      | Inr err \<Rightarrow>
          if truthy err then Inr (reject (Body (data response)) p)
          else (case data response of
                  JStr s \<Rightarrow>
                    (case JSON_parse env s of
                       Inl e \<Rightarrow> Inl e
                     | Inr v \<Rightarrow> Inr (resolve v p))
                | d \<Rightarrow> Inr (resolve d p)))"

text \<open>
  \<^verbatim>\<open>.then(callback).catch(reject)\<close> on the transport's promise: a rejection of the transport
  and an exception of the callback both reach \<^verbatim>\<open>reject\<close>.
\<close>

definition then_catch :: "env \<Rightarrow> AxiosResponse promise \<Rightarrow> json promise \<Rightarrow> json promise" where
  "then_catch env transport p =
     (case transport of
        Pending \<Rightarrow> p
      | Rejected r \<Rightarrow> reject r p
      | Fulfilled response \<Rightarrow>
          (case on_response env response p of
             Inl e \<Rightarrow> reject (Exception e) p
           | Inr p' \<Rightarrow> p'))"

text \<open>
  \<^verbatim>\<open>_send\<close> returns the client as the call leaves it, the requests handed to the transport,
  and the promise. The executor of \<^verbatim>\<open>new Promise\<close> evaluates the members of the request
  configuration in order: when \<^verbatim>\<open>_buildRPCBody\<close> throws, the headers are not merged and
  \<^verbatim>\<open>axios.request\<close> is not called, and the promise constructor turns the exception into a
  rejection. \<^verbatim>\<open>Object.assign\<close> writes into \<^verbatim>\<open>this.defaultHeaders\<close> and returns it.
\<close>

type_synonym outcome = "NanoClient \<times> request list \<times> json promise completion"

definition send :: "NanoClient \<Rightarrow> env \<Rightarrow> string \<Rightarrow> jsval props option \<Rightarrow> outcome" where
  "send this env method params =
     (case buildRPCBody method params of
        Inl e \<Rightarrow> (this, [], Returns (Rejected (Exception e)))
      | Inr body \<Rightarrow>
          (let headers = Object_assign (defaultHeaders this) (requestHeaders this);
               this' = this\<lparr>defaultHeaders := headers\<rparr>;
               config = \<lparr>req_method = ''POST'', req_url = nodeAddress this,
                         req_data = body, req_headers = headers\<rparr>
           in (this', [config], Returns (then_catch env (axios_request env config) Pending))))"

subsection \<open>The methods, one per RPC action\<close>

text \<open>
  Every method hands \<^verbatim>\<open>_send\<close> its action name and an object literal of its arguments.
  An omitted positional argument is \<open>VUndefined\<close>; an options object is \<open>None\<close> when omitted.
\<close>

definition account_balance :: "NanoClient \<Rightarrow> env \<Rightarrow> jsval \<Rightarrow> outcome" where
  "account_balance this env account =
     send this env ''account_balance'' (Some (object_literal [Prop ''account'' account]))"

definition account_block_count :: "NanoClient \<Rightarrow> env \<Rightarrow> jsval \<Rightarrow> outcome" where
  "account_block_count this env account =
     send this env ''account_block_count'' (Some (object_literal [Prop ''account'' account]))"

definition account_get :: "NanoClient \<Rightarrow> env \<Rightarrow> jsval \<Rightarrow> outcome" where
  "account_get this env key =
     send this env ''account_get'' (Some (object_literal [Prop ''key'' key]))"

definition account_history :: "NanoClient \<Rightarrow> env \<Rightarrow> jsval \<Rightarrow> jsval \<Rightarrow> jsval props option \<Rightarrow> outcome" where
  "account_history this env account count params =
     send this env ''account_history''
       (Some (object_literal
         [Prop ''account'' account,
          Prop ''count'' (default_param count (VNum 1)),
          Spread params]))"

definition account_info :: "NanoClient \<Rightarrow> env \<Rightarrow> jsval \<Rightarrow> jsval props option \<Rightarrow> outcome" where
  "account_info this env account params =
     send this env ''account_info''
       (Some (object_literal
         [Prop ''account'' account,
          Spread params]))"

definition account_key :: "NanoClient \<Rightarrow> env \<Rightarrow> jsval \<Rightarrow> outcome" where
  "account_key this env account =
     send this env ''account_key'' (Some (object_literal [Prop ''account'' account]))"

definition account_representative :: "NanoClient \<Rightarrow> env \<Rightarrow> jsval \<Rightarrow> outcome" where
  "account_representative this env account =
     send this env ''account_representative'' (Some (object_literal [Prop ''account'' account]))"

definition account_weight :: "NanoClient \<Rightarrow> env \<Rightarrow> jsval \<Rightarrow> outcome" where
  "account_weight this env account =
     send this env ''account_weight'' (Some (object_literal [Prop ''account'' account]))"

definition available_supply :: "NanoClient \<Rightarrow> env \<Rightarrow> outcome" where
  "available_supply this env =
     send this env ''available_supply'' None"

definition block :: "NanoClient \<Rightarrow> env \<Rightarrow> jsval \<Rightarrow> outcome" where
  "block this env hash =
     send this env ''block'' (Some (object_literal [Prop ''hash'' hash]))"

definition blocks :: "NanoClient \<Rightarrow> env \<Rightarrow> jsval \<Rightarrow> outcome" where
  "blocks this env hashes =
     send this env ''blocks'' (Some (object_literal [Prop ''hashes'' hashes]))"

definition block_account :: "NanoClient \<Rightarrow> env \<Rightarrow> jsval \<Rightarrow> outcome" where
  "block_account this env hash =
     send this env ''block_account'' (Some (object_literal [Prop ''hash'' hash]))"

definition block_count :: "NanoClient \<Rightarrow> env \<Rightarrow> outcome" where
  "block_count this env =
     send this env ''block_count'' None"

definition blocks_info :: "NanoClient \<Rightarrow> env \<Rightarrow> jsval \<Rightarrow> jsval \<Rightarrow> jsval \<Rightarrow> outcome" where
  "blocks_info this env hashes source pending =
     send this env ''blocks_info''
       (Some (object_literal
         [Prop ''hashes'' hashes,
          Prop ''source'' (default_param source (VBool False)),
          Prop ''pending'' (default_param pending (VBool False))]))"

definition block_count_type :: "NanoClient \<Rightarrow> env \<Rightarrow> outcome" where
  "block_count_type this env =
     send this env ''block_count_type'' None"

definition chain :: "NanoClient \<Rightarrow> env \<Rightarrow> jsval \<Rightarrow> jsval \<Rightarrow> outcome" where
  "chain this env blk count =
     send this env ''chain''
       (Some (object_literal
         [Prop ''block'' blk,
          Prop ''count'' (default_param count (VNum 1))]))"

definition frontiers :: "NanoClient \<Rightarrow> env \<Rightarrow> jsval \<Rightarrow> jsval \<Rightarrow> outcome" where
  "frontiers this env account count =
     send this env ''frontiers''
       (Some (object_literal
         [Prop ''account'' account,
          Prop ''count'' (default_param count (VNum 1))]))"

definition frontiers_count :: "NanoClient \<Rightarrow> env \<Rightarrow> outcome" where
  "frontiers_count this env =
     send this env ''frontiers_count'' None"

definition history :: "NanoClient \<Rightarrow> env \<Rightarrow> jsval \<Rightarrow> jsval \<Rightarrow> outcome" where
  "history this env hash count =
     send this env ''history''
       (Some (object_literal
         [Prop ''hash'' hash,
          Prop ''count'' (default_param count (VNum 1))]))"

definition mrai_from_raw :: "NanoClient \<Rightarrow> env \<Rightarrow> jsval \<Rightarrow> outcome" where
  "mrai_from_raw this env amount =
     send this env ''mrai_from_raw'' (Some (object_literal [Prop ''amount'' amount]))"

definition mrai_to_raw :: "NanoClient \<Rightarrow> env \<Rightarrow> jsval \<Rightarrow> outcome" where
  "mrai_to_raw this env amount =
     send this env ''mrai_to_raw'' (Some (object_literal [Prop ''amount'' amount]))"

definition krai_from_raw :: "NanoClient \<Rightarrow> env \<Rightarrow> jsval \<Rightarrow> outcome" where
  "krai_from_raw this env amount =
     send this env ''krai_from_raw'' (Some (object_literal [Prop ''amount'' amount]))"

definition krai_to_raw :: "NanoClient \<Rightarrow> env \<Rightarrow> jsval \<Rightarrow> outcome" where
  "krai_to_raw this env amount =
     send this env ''krai_to_raw'' (Some (object_literal [Prop ''amount'' amount]))"

definition rai_from_raw :: "NanoClient \<Rightarrow> env \<Rightarrow> jsval \<Rightarrow> outcome" where
  "rai_from_raw this env amount =
     send this env ''rai_from_raw'' (Some (object_literal [Prop ''amount'' amount]))"

definition rai_to_raw :: "NanoClient \<Rightarrow> env \<Rightarrow> jsval \<Rightarrow> outcome" where
  "rai_to_raw this env amount =
     send this env ''rai_to_raw'' (Some (object_literal [Prop ''amount'' amount]))"

definition ledger :: "NanoClient \<Rightarrow> env \<Rightarrow> jsval \<Rightarrow> jsval \<Rightarrow> jsval \<Rightarrow> jsval \<Rightarrow> jsval \<Rightarrow> jsval \<Rightarrow> outcome" where
  "ledger this env account count representative weight pending sorting =
     send this env ''ledger''
       (Some (object_literal
         [Prop ''account'' account,
          Prop ''count'' (default_param count (VNum 1)),
          Prop ''representative'' (default_param representative (VBool False)),
          Prop ''weight'' (default_param weight (VBool False)),
          Prop ''pending'' (default_param pending (VBool False)),
          Prop ''sorting'' (default_param sorting (VBool False))]))"

definition block_create :: "NanoClient \<Rightarrow> env \<Rightarrow> jsval \<Rightarrow> jsval \<Rightarrow> jsval \<Rightarrow> jsval \<Rightarrow> jsval \<Rightarrow> outcome" where
  "block_create this env type' key account representative source =
     send this env ''block_create''
       (Some (object_literal
         [Prop ''type'' type',
          Prop ''key'' key,
          Prop ''account'' account,
          Prop ''representative'' representative,
          Prop ''source'' source]))"

definition process :: "NanoClient \<Rightarrow> env \<Rightarrow> jsval \<Rightarrow> outcome" where
  "process this env blk =
     send this env ''process'' (Some (object_literal [Prop ''block'' blk]))"

definition representatives :: "NanoClient \<Rightarrow> env \<Rightarrow> jsval \<Rightarrow> jsval \<Rightarrow> outcome" where
  "representatives this env count sorting =
     send this env ''representatives'' None"

text \<open>An invocation of one of the methods with its arguments, and the method table.\<close>

datatype invocation =
    Account_balance jsval
  | Account_block_count jsval
  | Account_get jsval
  | Account_history jsval jsval "jsval props option"
  | Account_info jsval "jsval props option"
  | Account_key jsval
  | Account_representative jsval
  | Account_weight jsval
  | Available_supply
  | Block jsval
  | Blocks jsval
  | Block_account jsval
  | Block_count
  | Blocks_info jsval jsval jsval
  | Block_count_type
  | Chain jsval jsval
  | Frontiers jsval jsval
  | Frontiers_count
  | History jsval jsval
  | Mrai_from_raw jsval
  | Mrai_to_raw jsval
  | Krai_from_raw jsval
  | Krai_to_raw jsval
  | Rai_from_raw jsval
  | Rai_to_raw jsval
  | Ledger jsval jsval jsval jsval jsval jsval
  | Block_create jsval jsval jsval jsval jsval
  | Process jsval
  | Representatives jsval jsval

fun invoke :: "NanoClient \<Rightarrow> env \<Rightarrow> invocation \<Rightarrow> outcome" where
  "invoke this env (Account_balance account) = account_balance this env account"
| "invoke this env (Account_block_count account) = account_block_count this env account"
| "invoke this env (Account_get key) = account_get this env key"
| "invoke this env (Account_history account count params) = account_history this env account count params"
| "invoke this env (Account_info account params) = account_info this env account params"
| "invoke this env (Account_key account) = account_key this env account"
| "invoke this env (Account_representative account) = account_representative this env account"
| "invoke this env (Account_weight account) = account_weight this env account"
| "invoke this env Available_supply = available_supply this env"
| "invoke this env (Block hash) = block this env hash"
| "invoke this env (Blocks hashes) = blocks this env hashes"
| "invoke this env (Block_account hash) = block_account this env hash"
| "invoke this env Block_count = block_count this env"
| "invoke this env (Blocks_info hashes source pending) = blocks_info this env hashes source pending"
| "invoke this env Block_count_type = block_count_type this env"
| "invoke this env (Chain blk count) = chain this env blk count"
| "invoke this env (Frontiers account count) = frontiers this env account count"
| "invoke this env Frontiers_count = frontiers_count this env"
| "invoke this env (History hash count) = history this env hash count"
| "invoke this env (Mrai_from_raw amount) = mrai_from_raw this env amount"
| "invoke this env (Mrai_to_raw amount) = mrai_to_raw this env amount"
| "invoke this env (Krai_from_raw amount) = krai_from_raw this env amount"
| "invoke this env (Krai_to_raw amount) = krai_to_raw this env amount"
| "invoke this env (Rai_from_raw amount) = rai_from_raw this env amount"
| "invoke this env (Rai_to_raw amount) = rai_to_raw this env amount"
| "invoke this env (Ledger account count representative weight pending sorting) = ledger this env account count representative weight pending sorting"
| "invoke this env (Block_create type' key account representative source) = block_create this env type' key account representative source"
| "invoke this env (Process blk) = process this env blk"
| "invoke this env (Representatives count sorting) = representatives this env count sorting"

subsection \<open>Observing a call\<close>

text \<open>The bodies of the requests a call hands to the transport.\<close>

definition request_bodies :: "outcome \<Rightarrow> json list" where
  "request_bodies out = map req_data (fst (snd out))"

text \<open>An argument that is a JSON value when supplied and \<^verbatim>\<open>undefined\<close> when omitted.\<close>

definition optional_arg :: "json option \<Rightarrow> jsval" where
  "optional_arg a = (case a of None \<Rightarrow> VUndefined | Some j \<Rightarrow> embed j)"




subsection \<open>Example data\<close>

text \<open>
  A client with two custom headers, one of them colliding with the default; the same client
  after its first request; the request that \<^verbatim>\<open>account_balance('nano_1abc')\<close> sends; a decoder
  that knows the two JSON texts the examples use; and a transport that answers every request
  with a given status and body.
\<close>

definition example_options :: "client_options option" where
  "example_options =
     Some \<lparr>opt_url = Some ''http://localhost:7076'',
           opt_requestHeaders =
             Some [(''content-type'', VStr ''text/plain''),
                   (''authorization'', VStr ''secret'')]\<rparr>"

definition example_client :: NanoClient where
  "example_client =
     \<lparr>nodeAddress = Some ''http://localhost:7076'',
      requestHeaders =
        [(''content-type'', VStr ''text/plain''), (''authorization'', VStr ''secret'')],
      defaultHeaders = [(''content-type'', VStr ''application/json'')]\<rparr>"

definition contacted_client :: NanoClient where
  "contacted_client =
     \<lparr>nodeAddress = Some ''http://localhost:7076'',
      requestHeaders =
        [(''content-type'', VStr ''text/plain''), (''authorization'', VStr ''secret'')],
      defaultHeaders =
        [(''content-type'', VStr ''text/plain''), (''authorization'', VStr ''secret'')]\<rparr>"

definition example_request :: request where
  "example_request =
     \<lparr>req_method = ''POST'',
      req_url = Some ''http://localhost:7076'',
      req_data = JObj [(''action'', JStr ''account_balance''), (''account'', JStr ''nano_1abc'')],
      req_headers =
        [(''content-type'', VStr ''text/plain''), (''authorization'', VStr ''secret'')]\<rparr>"

definition example_parse :: "string \<Rightarrow> js_error + json" where
  "example_parse s =
     (if s = ''{}'' then Inr (JObj [])
      else if s = ''[]'' then Inr (JArr [])
      else Inl SyntaxError)"

definition responding :: "nat \<Rightarrow> json \<Rightarrow> env" where
  "responding code body =
     \<lparr>axios_request = (\<lambda>req. Fulfilled \<lparr>data = body, status = code\<rparr>),
      JSON_parse = example_parse\<rparr>"

section \<open>Objects as property lists\<close>

lemma set_prop_Nil: "set_prop [] k v = [(k, v)]"
  by (simp add: set_prop_def)

lemma copy_props_Nil: "copy_props t [] = t"
  by (simp add: copy_props_def)

lemma copy_props_Cons: "copy_props t (p # s) = copy_props (set_prop t (fst p) (snd p)) s"
  by (simp add: copy_props_def)

lemma map_of_replace_other:
  "a \<noteq> k \<Longrightarrow> map_of (map (\<lambda>p. if fst p = k then (k, v) else p) ps) a = map_of ps a"
  by (induction ps) auto

lemma map_of_replace_key:
  "k \<in> fst ` set ps \<Longrightarrow>
     map_of (map (\<lambda>p. if fst p = k then (k, v) else p) ps) k = Some v"
  by (induction ps) auto

lemma map_of_replace:
  assumes "k \<in> fst ` set ps"
  shows "map_of (map (\<lambda>p. if fst p = k then (k, v) else p) ps) = (map_of ps)(k \<mapsto> v)"
proof
  fix a
  show "map_of (map (\<lambda>p. if fst p = k then (k, v) else p) ps) a = ((map_of ps)(k \<mapsto> v)) a"
    using assms by (cases "a = k") (simp_all add: map_of_replace_other map_of_replace_key)
qed

lemma map_of_insert:
  assumes "k \<notin> fst ` set xs"
  shows "map_of (xs @ (k, v) # ys) = (map_of (xs @ ys))(k \<mapsto> v)"
proof
  fix a
  have "map_of xs k = None" using assms by (simp add: map_of_eq_None_iff)
  then show "map_of (xs @ (k, v) # ys) a = ((map_of (xs @ ys))(k \<mapsto> v)) a"
    by (cases "a = k") (auto simp: map_add_def split: option.splits)
qed

lemma map_of_set_prop: "map_of (set_prop ps k v) = (map_of ps)(k \<mapsto> v)"
proof (cases "k \<in> fst ` set ps")
  case True
  then show ?thesis by (simp add: set_prop_def map_of_replace)
next
  case False
  let ?P = "\<lambda>p. precedes (fst p) k"
  have "set (takeWhile ?P ps) \<subseteq> set ps" by (auto dest: set_takeWhileD)
  with False have "k \<notin> fst ` set (takeWhile ?P ps)" by auto
  then have "map_of (takeWhile ?P ps @ (k, v) # dropWhile ?P ps)
      = (map_of (takeWhile ?P ps @ dropWhile ?P ps))(k \<mapsto> v)"
    by (rule map_of_insert)
  moreover have "map_of (ps @ [(k, v)]) = (map_of ps)(k \<mapsto> v)"
    using False map_of_insert [of k ps v "[]"] by simp
  ultimately show ?thesis using False by (simp add: set_prop_def)
qed

lemma keys_set_prop: "fst ` set (set_prop ps k v) = insert k (fst ` set ps)"
proof -
  have "dom (map_of (set_prop ps k v)) = insert k (dom (map_of ps))"
    by (simp add: map_of_set_prop)
  then show ?thesis by (simp add: dom_map_of_conv_image_fst)
qed

lemma map_fst_replace: "map fst (map (\<lambda>p. if fst p = k then (k, v) else p) ps) = map fst ps"
  by (induction ps) auto

lemma map_fst_set_prop:
  assumes "k \<in> fst ` set ps"
  shows "map fst (set_prop ps k v) = map fst ps"
proof -
  have "set_prop ps k v = map (\<lambda>p. if fst p = k then (k, v) else p) ps"
    using assms by (simp add: set_prop_def)
  then show ?thesis by (simp only: map_fst_replace)
qed

lemma distinct_insert:
  "k \<notin> fst ` set xs \<Longrightarrow> k \<notin> fst ` set ys \<Longrightarrow>
     distinct (map fst (xs @ (k, v) # ys)) = distinct (map fst (xs @ ys))"
  by auto

lemma distinct_set_prop: "distinct (map fst (set_prop ps k v)) = distinct (map fst ps)"
proof (cases "k \<in> fst ` set ps")
  case True
  then show ?thesis by (simp add: map_fst_set_prop)
next
  case False
  let ?P = "\<lambda>p. precedes (fst p) k"
  have "k \<notin> fst ` set (takeWhile ?P ps)" "k \<notin> fst ` set (dropWhile ?P ps)"
    using False by (auto dest: set_takeWhileD set_dropWhileD)
  then have "distinct (map fst (takeWhile ?P ps @ (k, v) # dropWhile ?P ps))
      = distinct (map fst (takeWhile ?P ps @ dropWhile ?P ps))"
    by (rule distinct_insert)
  then have index: "distinct (map fst (takeWhile ?P ps @ (k, v) # dropWhile ?P ps))
      = distinct (map fst ps)"
    by (simp only: takeWhile_dropWhile_id)
  have last: "distinct (map fst (ps @ [(k, v)])) = distinct (map fst ps)"
    using False by auto
  show ?thesis
    using False by (cases "is_array_index k") (simp_all only: set_prop_def if_False if_True index last)
qed

lemma map_of_copy_props_other:
  "k \<notin> fst ` set s \<Longrightarrow> map_of (copy_props t s) k = map_of t k"
  by (induction s arbitrary: t) (auto simp: copy_props_Nil copy_props_Cons map_of_set_prop)

text \<open>With distinct source keys, copying is the map override: the source wins.\<close>

lemma map_of_copy_props:
  "distinct (map fst s) \<Longrightarrow> map_of (copy_props t s) = map_of t ++ map_of s"
proof (induction s arbitrary: t)
  case Nil
  then show ?case by (simp add: copy_props_Nil)
next
  case (Cons p s)
  obtain k v where p: "p = (k, v)" by (cases p)
  from Cons.prems p have k: "k \<notin> dom (map_of s)" and d: "distinct (map fst s)"
    by (auto simp: dom_map_of_conv_image_fst)
  have "map_of (copy_props t (p # s)) = (map_of t)(k \<mapsto> v) ++ map_of s"
    using Cons.IH [OF d, of "set_prop t k v"] p
    by (simp only: copy_props_Cons map_of_set_prop fst_conv snd_conv)
  also have "\<dots> = map_of t ++ map_of (p # s)"
  proof
    fix a
    show "((map_of t)(k \<mapsto> v) ++ map_of s) a = (map_of t ++ map_of (p # s)) a"
      using k p by (cases "a = k") (auto simp: map_add_def domIff split: option.splits)
  qed
  finally show ?case .
qed


lemma distinct_copy_props: "distinct (map fst (copy_props t s)) = distinct (map fst t)"
  by (induction s arbitrary: t) (auto simp: copy_props_Nil copy_props_Cons distinct_set_prop)




lemma set_copy_props_source:
  assumes "distinct (map fst s)"
  shows "set s \<subseteq> set (copy_props t s)"
proof
  fix p assume p: "p \<in> set s"
  obtain k v where kv: "p = (k, v)" by (cases p)
  with p assms have "map_of s k = Some v" by simp
  then have "map_of (copy_props t s) k = Some v"
    using assms by (simp add: map_of_copy_props)
  then show "p \<in> set (copy_props t s)"
    using kv by (simp add: map_of_SomeD)
qed

text \<open>What evaluates \<open>set_prop\<close> on the literal keys of the source.\<close>

lemmas prop_simps = set_prop_def is_array_index_def is_digit_def

subsection \<open>\<^verbatim>\<open>Object.assign\<close>\<close>

lemma Object_assign_Nil: "Object_assign t [] = t"
  by (simp add: Object_assign_def)

lemma Object_assign_Cons:
  "Object_assign t (p # s) = Object_assign (assign_prop t (fst p) (snd p)) s"
  by (simp add: Object_assign_def)


text \<open>Assigning never gives a target without an own property \<^verbatim>\<open>__proto__\<close> one.\<close>

lemma Object_assign_proto:
  "''__proto__'' \<notin> fst ` set t \<Longrightarrow> ''__proto__'' \<notin> fst ` set (Object_assign t s)"
proof (induction s arbitrary: t)
  case Nil
  then show ?case by (simp add: Object_assign_Nil)
next
  case (Cons p s)
  from Cons.prems have "''__proto__'' \<notin> fst ` set (assign_prop t (fst p) (snd p))"
    by (auto simp: assign_prop_def keys_set_prop)
  then show ?case by (simp add: Object_assign_Cons Cons.IH)
qed

section \<open>Serialization\<close>

lemma embed_defined: "embed j \<noteq> VUndefined"
  by (cases j) simp_all

lemma embed_props_Nil: "embed_props [] = []"
  by (simp add: embed_props_def)

lemma embed_props_Cons: "embed_props (p # kvs) = (fst p, embed (snd p)) # embed_props kvs"
  by (cases p) (simp add: embed_props_def)

lemma embed_JObj: "embed (JObj kvs) = VObj (embed_props kvs)"
  by (simp add: embed_props_def)

text \<open>A JSON value, taken as a JavaScript value, serializes to itself.\<close>

lemma serialize_embed: "serialize (embed j) = Inr (Some j)"
proof (induction j)
  case (JArr xs)
  then have "serialize_elems (map embed xs) = Inr xs"
    by (induction xs) simp_all
  then show ?case by simp
next
  case (JObj kvs)
  then have "serialize_props (embed_props kvs) = Inr kvs"
  proof (induction kvs)
    case Nil
    then show ?case by (simp add: embed_props_Nil)
  next
    case (Cons p kvs)
    from Cons.prems [of p "snd p"] have "serialize (embed (snd p)) = Inr (Some (snd p))"
      by (cases p) simp
    moreover have "serialize_props (embed_props kvs) = Inr kvs"
      by (rule Cons.IH) (rule Cons.prems, auto)
    ultimately show ?case by (simp add: embed_props_Cons)
  qed
  then show ?case by (simp only: embed_JObj serialize.simps sum.case)
qed simp_all

lemma serialize_props_embed: "serialize_props (embed_props kvs) = Inr kvs"
  by (induction kvs) (simp_all add: embed_props_Nil embed_props_Cons serialize_embed)

lemma keys_embed_props: "map fst (embed_props ps) = map fst ps"
  by (induction ps) (simp_all add: embed_props_def)

lemma set_prop_map:
  "set_prop (map (map_prod id h) ps) k (h v) = map (map_prod id h) (set_prop ps k v)"
proof -
  let ?f = "map_prod id h"
  let ?P = "\<lambda>p. precedes (fst p) k"
  have keys: "(k \<in> fst ` set (map ?f ps)) = (k \<in> fst ` set ps)"
    by force
  have replace: "map (\<lambda>p. if fst p = k then (k, h v) else p) (map ?f ps)
      = map ?f (map (\<lambda>p. if fst p = k then (k, v) else p) ps)"
    by (induction ps) auto
  have "?P \<circ> ?f = ?P" by (auto simp: fun_eq_iff)
  then have split: "takeWhile ?P (map ?f ps) = map ?f (takeWhile ?P ps)"
    "dropWhile ?P (map ?f ps) = map ?f (dropWhile ?P ps)"
    by (simp_all only: takeWhile_map dropWhile_map)
  have insert: "takeWhile ?P (map ?f ps) @ (k, h v) # dropWhile ?P (map ?f ps)
      = map ?f (takeWhile ?P ps @ (k, v) # dropWhile ?P ps)"
    by (simp only: split) simp
  have append: "map ?f ps @ [(k, h v)] = map ?f (ps @ [(k, v)])" by simp
  show ?thesis
  proof (cases "k \<in> fst ` set ps")
    case True
    then show ?thesis by (simp only: set_prop_def keys if_True replace)
  next
    case False
    then show ?thesis
      by (cases "is_array_index k")
         (simp_all only: set_prop_def keys if_False if_True insert append)
  qed
qed

lemma set_prop_embed: "set_prop (embed_props ps) k (embed v) = embed_props (set_prop ps k v)"
  unfolding embed_props_def by (rule set_prop_map)

lemma copy_props_embed:
  "copy_props (embed_props t) (embed_props s) = embed_props (copy_props t s)"
  by (induction s arbitrary: t)
     (simp_all add: copy_props_Nil copy_props_Cons embed_props_Nil embed_props_Cons
        set_prop_embed)

text \<open>The serializer fails only with a TypeError, and exactly when some property value fails.\<close>

lemma serialize_TypeError:
  "serialize v = Inl e \<Longrightarrow> e = TypeError"
  "serialize_props kvs = Inl e \<Longrightarrow> e = TypeError"
  "serialize_elems vs = Inl e \<Longrightarrow> e = TypeError"
  by (induction v and kvs and vs arbitrary: e and e and e
      rule: serialize_serialize_props_serialize_elems.induct)
     (auto split: sum.splits option.splits)

lemma serialize_props_fails:
  "p \<in> set kvs \<Longrightarrow> serialize (snd p) = Inl e \<Longrightarrow> \<exists>e'. serialize_props kvs = Inl e'"
  by (induction kvs) (auto split: sum.splits option.splits)

lemma serialize_props_failsD:
  "serialize_props kvs = Inl e \<Longrightarrow> \<exists>p \<in> set kvs. serialize (snd p) = Inl e"
  by (induction kvs) (auto split: sum.splits option.splits)

section \<open>What \<^verbatim>\<open>_buildRPCBody\<close> and \<^verbatim>\<open>_send\<close> compute\<close>

lemma envelope_copy: "envelope action params = copy_props [(''action'', VStr action)] params"
  by (simp add: envelope_def object_literal_def set_prop_Nil)

lemma buildRPCBody_embed:
  "buildRPCBody action (Some (embed_props params))
     = Inr (JObj (copy_props [(''action'', JStr action)] params))"
proof -
  have "envelope action (embed_props params)
      = embed_props (copy_props [(''action'', JStr action)] params)"
    using copy_props_embed [of "[(''action'', JStr action)]" params]
    by (simp add: envelope_copy embed_props_Nil embed_props_Cons)
  then show ?thesis
    by (simp add: buildRPCBody_def JSON_stringify_def serialize_props_embed)
qed

lemma buildRPCBody_None: "buildRPCBody action None = Inr (JObj [(''action'', JStr action)])"
  using buildRPCBody_embed [of action "[]"]
  by (simp add: buildRPCBody_def embed_props_Nil copy_props_Nil)

lemma lookup_merged_action:
  assumes "distinct (map fst ps)"
  shows "map_of (copy_props [(''action'', a)] ps) k
      = (case map_of ps k of
           Some v \<Rightarrow> Some v
         | None \<Rightarrow> if k = ''action'' then Some a else None)"
proof -
  have "map_of (copy_props [(''action'', a)] ps) = map_of [(''action'', a)] ++ map_of ps"
    using assms by (rule map_of_copy_props)
  then show ?thesis by (simp add: map_add_def split: option.splits)
qed

lemma send_cases:
  assumes "send this env m p = (this', reqs, res)"
  obtains (unserializable) e where "buildRPCBody m p = Inl e" "this' = this" "reqs = []"
      "res = Returns (Rejected (Exception e))"
  | (sent) body headers req where "buildRPCBody m p = Inr body"
      "headers = Object_assign (defaultHeaders this) (requestHeaders this)"
      "this' = this\<lparr>defaultHeaders := headers\<rparr>"
      "req = \<lparr>req_method = ''POST'', req_url = nodeAddress this, req_data = body,
              req_headers = headers\<rparr>"
      "reqs = [req]"
      "res = Returns (then_catch env (axios_request env req) Pending)"
  using assms by (auto simp: send_def Let_def split: sum.splits)

lemma request_bodies_send:
  "request_bodies (send this env m p) = (case buildRPCBody m p of Inl e \<Rightarrow> [] | Inr b \<Rightarrow> [b])"
  by (simp add: request_bodies_def send_def Let_def split: sum.splits)

lemmas method_defs =
  account_balance_def account_block_count_def account_get_def account_history_def
  account_info_def account_key_def account_representative_def account_weight_def
  available_supply_def block_def blocks_def block_account_def block_count_def
  blocks_info_def block_count_type_def chain_def frontiers_def frontiers_count_def
  history_def mrai_from_raw_def mrai_to_raw_def krai_from_raw_def krai_to_raw_def
  rai_from_raw_def rai_to_raw_def ledger_def block_create_def process_def
  representatives_def

text \<open>Every method is one call of \<^verbatim>\<open>_send\<close>.\<close>

lemma invoke_is_send: "\<exists>method params. \<forall>this env. invoke this env i = send this env method params"
  by (cases i) (simp_all add: method_defs, blast+)

lemma invoke_never_throws: "\<exists>this' reqs p. invoke this env i = (this', reqs, Returns p)"
proof -
  obtain m p where "invoke this env i = send this env m p"
    using invoke_is_send [of i] by blast
  then show ?thesis
    by (cases "buildRPCBody m p") (simp_all add: send_def Let_def)
qed


lemma buildRPCBody_error: "buildRPCBody method params = Inl e \<Longrightarrow> e = Error TypeError"
  by (auto simp: buildRPCBody_def JSON_stringify_def Let_def split: sum.splits
      dest: serialize_TypeError(2))

subsection \<open>Clients reachable from the constructor\<close>




subsection \<open>The request body of each method\<close>

text \<open>
  For arguments that are JSON values, each method but \<^verbatim>\<open>representatives\<close> sends its action
  name followed by its arguments, with the declared default in place of an omitted one.
\<close>

lemma default_param_embed:
  "default_param (optional_arg c) (embed d) = embed (case c of None \<Rightarrow> d | Some j \<Rightarrow> j)"
  by (cases c) (simp_all add: default_param_def optional_arg_def embed_defined)

lemma default_count: "default_param (optional_arg c) (VNum 1)
    = embed (case c of None \<Rightarrow> JNum 1 | Some j \<Rightarrow> j)"
  using default_param_embed [of c "JNum 1"] by simp

lemma default_flag: "default_param (optional_arg c) (VBool False)
    = embed (case c of None \<Rightarrow> JBool False | Some j \<Rightarrow> j)"
  using default_param_embed [of c "JBool False"] by simp

lemmas body_simps =
  request_bodies_send buildRPCBody_def envelope_copy object_literal_def copy_props_Nil
  copy_props_Cons JSON_stringify_def serialize_embed default_count default_flag prop_simps

lemma available_supply_body:
  "request_bodies (available_supply this env) = [JObj [(''action'', JStr ''available_supply'')]]"
  by (simp add: available_supply_def request_bodies_send buildRPCBody_None)

lemma block_count_body:
  "request_bodies (block_count this env) = [JObj [(''action'', JStr ''block_count'')]]"
  by (simp add: block_count_def request_bodies_send buildRPCBody_None)

lemma block_count_type_body:
  "request_bodies (block_count_type this env) = [JObj [(''action'', JStr ''block_count_type'')]]"
  by (simp add: block_count_type_def request_bodies_send buildRPCBody_None)

lemma frontiers_count_body:
  "request_bodies (frontiers_count this env) = [JObj [(''action'', JStr ''frontiers_count'')]]"
  by (simp add: frontiers_count_def request_bodies_send buildRPCBody_None)

lemma account_balance_body:
  "request_bodies (account_balance this env (embed account))
     = [JObj [(''action'', JStr ''account_balance''), (''account'', account)]]"
  by (simp add: account_balance_def body_simps)

lemma account_block_count_body:
  "request_bodies (account_block_count this env (embed account))
     = [JObj [(''action'', JStr ''account_block_count''), (''account'', account)]]"
  by (simp add: account_block_count_def body_simps)

lemma account_get_body:
  "request_bodies (account_get this env (embed key))
     = [JObj [(''action'', JStr ''account_get''), (''key'', key)]]"
  by (simp add: account_get_def body_simps)

lemma account_key_body:
  "request_bodies (account_key this env (embed account))
     = [JObj [(''action'', JStr ''account_key''), (''account'', account)]]"
  by (simp add: account_key_def body_simps)

lemma account_representative_body:
  "request_bodies (account_representative this env (embed account))
     = [JObj [(''action'', JStr ''account_representative''), (''account'', account)]]"
  by (simp add: account_representative_def body_simps)

lemma account_weight_body:
  "request_bodies (account_weight this env (embed account))
     = [JObj [(''action'', JStr ''account_weight''), (''account'', account)]]"
  by (simp add: account_weight_def body_simps)

lemma block_body:
  "request_bodies (block this env (embed hash))
     = [JObj [(''action'', JStr ''block''), (''hash'', hash)]]"
  by (simp add: block_def body_simps)

lemma blocks_body:
  "request_bodies (blocks this env (embed hashes))
     = [JObj [(''action'', JStr ''blocks''), (''hashes'', hashes)]]"
  by (simp add: blocks_def body_simps)

lemma block_account_body:
  "request_bodies (block_account this env (embed hash))
     = [JObj [(''action'', JStr ''block_account''), (''hash'', hash)]]"
  by (simp add: block_account_def body_simps)

lemma mrai_from_raw_body:
  "request_bodies (mrai_from_raw this env (embed amount))
     = [JObj [(''action'', JStr ''mrai_from_raw''), (''amount'', amount)]]"
  by (simp add: mrai_from_raw_def body_simps)

lemma mrai_to_raw_body:
  "request_bodies (mrai_to_raw this env (embed amount))
     = [JObj [(''action'', JStr ''mrai_to_raw''), (''amount'', amount)]]"
  by (simp add: mrai_to_raw_def body_simps)

lemma krai_from_raw_body:
  "request_bodies (krai_from_raw this env (embed amount))
     = [JObj [(''action'', JStr ''krai_from_raw''), (''amount'', amount)]]"
  by (simp add: krai_from_raw_def body_simps)

lemma krai_to_raw_body:
  "request_bodies (krai_to_raw this env (embed amount))
     = [JObj [(''action'', JStr ''krai_to_raw''), (''amount'', amount)]]"
  by (simp add: krai_to_raw_def body_simps)

lemma rai_from_raw_body:
  "request_bodies (rai_from_raw this env (embed amount))
     = [JObj [(''action'', JStr ''rai_from_raw''), (''amount'', amount)]]"
  by (simp add: rai_from_raw_def body_simps)

lemma rai_to_raw_body:
  "request_bodies (rai_to_raw this env (embed amount))
     = [JObj [(''action'', JStr ''rai_to_raw''), (''amount'', amount)]]"
  by (simp add: rai_to_raw_def body_simps)

lemma block_create_body:
  "request_bodies (block_create this env (embed type') (embed key) (embed account) (embed representative) (embed source))
     = [JObj [(''action'', JStr ''block_create''), (''type'', type'), (''key'', key), (''account'', account), (''representative'', representative), (''source'', source)]]"
  by (simp add: block_create_def body_simps)

lemma process_body:
  "request_bodies (process this env (embed blk))
     = [JObj [(''action'', JStr ''process''), (''block'', blk)]]"
  by (simp add: process_def body_simps)

lemma blocks_info_body:
  "request_bodies (blocks_info this env (embed hashes) (optional_arg source) (optional_arg pending))
     = [JObj [(''action'', JStr ''blocks_info''),
              (''hashes'', hashes),
              (''source'', case source of None \<Rightarrow> JBool False | Some j \<Rightarrow> j),
              (''pending'', case pending of None \<Rightarrow> JBool False | Some j \<Rightarrow> j)]]"
  by (simp add: blocks_info_def body_simps)

lemma chain_body:
  "request_bodies (chain this env (embed blk) (optional_arg count))
     = [JObj [(''action'', JStr ''chain''),
              (''block'', blk),
              (''count'', case count of None \<Rightarrow> JNum 1 | Some j \<Rightarrow> j)]]"
  by (simp add: chain_def body_simps)

lemma frontiers_body:
  "request_bodies (frontiers this env (embed account) (optional_arg count))
     = [JObj [(''action'', JStr ''frontiers''),
              (''account'', account),
              (''count'', case count of None \<Rightarrow> JNum 1 | Some j \<Rightarrow> j)]]"
  by (simp add: frontiers_def body_simps)

lemma history_body:
  "request_bodies (history this env (embed hash) (optional_arg count))
     = [JObj [(''action'', JStr ''history''),
              (''hash'', hash),
              (''count'', case count of None \<Rightarrow> JNum 1 | Some j \<Rightarrow> j)]]"
  by (simp add: history_def body_simps)

lemma ledger_body:
  "request_bodies (ledger this env (embed account) (optional_arg count) (optional_arg representative) (optional_arg weight) (optional_arg pending) (optional_arg sorting))
     = [JObj [(''action'', JStr ''ledger''),
              (''account'', account),
              (''count'', case count of None \<Rightarrow> JNum 1 | Some j \<Rightarrow> j),
              (''representative'', case representative of None \<Rightarrow> JBool False | Some j \<Rightarrow> j),
              (''weight'', case weight of None \<Rightarrow> JBool False | Some j \<Rightarrow> j),
              (''pending'', case pending of None \<Rightarrow> JBool False | Some j \<Rightarrow> j),
              (''sorting'', case sorting of None \<Rightarrow> JBool False | Some j \<Rightarrow> j)]]"
  by (simp add: ledger_def body_simps)

lemma spread_embed:
  "define_member (embed_props obj) (Spread (map_option embed_props opts))
     = embed_props (copy_props obj (case opts of None \<Rightarrow> [] | Some p \<Rightarrow> p))"
  by (cases opts) (simp_all add: copy_props_Nil copy_props_embed)

lemma account_history_body:
  "request_bodies (account_history this env (embed account) (optional_arg count)
       (map_option embed_props params))
     = [JObj (copy_props [(''action'', JStr ''account_history'')]
          (copy_props
            [(''account'', account),
             (''count'', case count of None \<Rightarrow> JNum 1 | Some j \<Rightarrow> j)]
            (case params of None \<Rightarrow> [] | Some p \<Rightarrow> p)))]"
proof -
  have "object_literal
      [Prop ''account'' (embed account),
       Prop ''count'' (default_param (optional_arg count) (VNum 1)),
       Spread (map_option embed_props params)]
    = define_member
        (embed_props [(''account'', account),
          (''count'', case count of None \<Rightarrow> JNum 1 | Some j \<Rightarrow> j)])
        (Spread (map_option embed_props params))"
    by (simp add: object_literal_def default_count embed_props_Nil embed_props_Cons prop_simps)
  then show ?thesis
    by (simp only: account_history_def request_bodies_send spread_embed buildRPCBody_embed
        sum.case)
qed

lemma account_info_body:
  "request_bodies (account_info this env (embed account) (map_option embed_props params))
     = [JObj (copy_props [(''action'', JStr ''account_info'')]
          (copy_props [(''account'', account)]
            (case params of None \<Rightarrow> [] | Some p \<Rightarrow> p)))]"
proof -
  have "object_literal
      [Prop ''account'' (embed account), Spread (map_option embed_props params)]
    = define_member (embed_props [(''account'', account)])
        (Spread (map_option embed_props params))"
    by (simp add: object_literal_def embed_props_Nil embed_props_Cons prop_simps)
  then show ?thesis
    by (simp only: account_info_def request_bodies_send spread_embed buildRPCBody_embed
        sum.case)
qed

subsection \<open>Responses\<close>

lemma truthy_falsy:
  "truthy (Some v) = (\<not> (v = JNull \<or> v = JBool False \<or> v = JNum 0 \<or> v = JStr []))"
  by (cases v) auto

text \<open>
  A body that is neither \<^verbatim>\<open>null\<close> nor a string and has no \<^verbatim>\<open>error\<close> field resolves the call
  unchanged; a body delivered as a string that \<^verbatim>\<open>JSON.parse\<close> decodes to a value without an
  \<^verbatim>\<open>error\<close> field resolves it with that value.
\<close>

lemma body_resolves:
  assumes "invoke this env i = (this', reqs, res)"
    and "req \<in> set reqs"
    and "axios_request env req = Fulfilled response"
  shows "get_prop (data response) ''error'' = Inr None \<Longrightarrow> \<forall>s. data response \<noteq> JStr s \<Longrightarrow>
           res = Returns (Fulfilled (data response))"
    and "data response = JStr s \<Longrightarrow> JSON_parse env s = Inr v \<Longrightarrow>
           \<forall>kvs. v = JObj kvs \<longrightarrow> map_of kvs ''error'' = None \<Longrightarrow>
           res = Returns (Fulfilled v)"
proof -
  obtain m p where "invoke this env i = send this env m p"
    using invoke_is_send [of i] by blast
  with assms(1) have "send this env m p = (this', reqs, res)" by simp
  then have res: "res = Returns (then_catch env (Fulfilled response) Pending)"
  proof (cases rule: send_cases)
    case (unserializable e)
    with assms(2) show ?thesis by simp
  next
    case (sent body headers req')
    with assms(2) have "req' = req" by simp
    with sent assms(3) show ?thesis by simp
  qed
  show "res = Returns (Fulfilled (data response))"
    if "get_prop (data response) ''error'' = Inr None" "\<forall>s. data response \<noteq> JStr s"
    using that res
    by (auto simp: then_catch_def on_response_def resolve_def split: json.splits)
  show "res = Returns (Fulfilled v)"
    if "data response = JStr s" "JSON_parse env s = Inr v"
      "\<forall>kvs. v = JObj kvs \<longrightarrow> map_of kvs ''error'' = None"
    using that(1,2) res by (simp add: then_catch_def on_response_def resolve_def)
qed

subsection \<open>The example client at work\<close>

lemma example_invoke:
  "invoke example_client env (Account_balance (VStr ''nano_1abc''))
     = (contacted_client, [example_request],
        Returns (then_catch env (axios_request env example_request) Pending))"
  by (simp add: account_balance_def send_def buildRPCBody_def envelope_def object_literal_def
      JSON_stringify_def copy_props_def Object_assign_def assign_prop_def prop_simps Let_def
      example_client_def contacted_client_def example_request_def)

lemma contacted_invoke:
  "invoke contacted_client env (Account_balance (VStr ''nano_1abc''))
     = (contacted_client, [example_request],
        Returns (then_catch env (axios_request env example_request) Pending))"
  by (simp add: account_balance_def send_def buildRPCBody_def envelope_def object_literal_def
      JSON_stringify_def copy_props_def Object_assign_def assign_prop_def prop_simps Let_def
      contacted_client_def example_request_def)



section \<open>The claims\<close>

text \<open>
  C1. Every method's request body carries its action name and exactly the supplied
  parameters merged with the defaults. The lemmas \<open>account_balance_body\<close> to
  \<open>account_info_body\<close> above show this for twenty-eight methods. \<^verbatim>\<open>representatives\<close>
  breaks it: called with count 3 and sorting true it sends the action name alone, while
  \<^verbatim>\<open>ledger\<close>, which documents the same two parameters, forwards them.
\<close>

theorem representatives_drops_supplied_arguments:
  "request_bodies (representatives this env (VNum 3) (VBool True))
     = [JObj [(''action'', JStr ''representatives'')]]
   \<and> request_bodies (ledger this env (VStr ''nano_1abc'') (VNum 3) VUndefined VUndefined
        VUndefined (VBool True))
     = [JObj [(''action'', JStr ''ledger''), (''account'', JStr ''nano_1abc''),
              (''count'', JNum 3), (''representative'', JBool False),
              (''weight'', JBool False), (''pending'', JBool False),
              (''sorting'', JBool True)]]"
proof -
  have "request_bodies (representatives this env (VNum 3) (VBool True))
      = [JObj [(''action'', JStr ''representatives'')]]"
    by (simp add: representatives_def request_bodies_send buildRPCBody_None)
  moreover have "request_bodies (ledger this env (VStr ''nano_1abc'') (VNum 3) VUndefined
        VUndefined VUndefined (VBool True))
      = [JObj [(''action'', JStr ''ledger''), (''account'', JStr ''nano_1abc''),
              (''count'', JNum 3), (''representative'', JBool False),
              (''weight'', JBool False), (''pending'', JBool False),
              (''sorting'', JBool True)]]"
    using ledger_body [of this env "JStr ''nano_1abc''" "Some (JNum 3)" None None None
        "Some (JBool True)"]
    by (simp add: optional_arg_def)
  ultimately show ?thesis by simp
qed

text \<open>
  C2, as the code has it. When the transport fulfils its promise with a response, whatever
  status the response carries, the \<^verbatim>\<open>error\<close> property of the body as delivered decides: a
  truthy value makes the call of any method reject with that body unchanged, and a body
  whose \<^verbatim>\<open>error\<close> field is \<^verbatim>\<open>null\<close>, \<^verbatim>\<open>false\<close>, \<^verbatim>\<open>0\<close> or the empty string makes it resolve with
  that body.
\<close>

theorem error_field_decides:
  assumes "invoke this env i = (this', reqs, res)"
    and "req \<in> set reqs"
    and "axios_request env req = Fulfilled response"
  shows "(\<forall>err. get_prop (data response) ''error'' = Inr err \<and> truthy err \<longrightarrow>
            res = Returns (Rejected (Body (data response))))
       \<and> (\<forall>kvs v. data response = JObj kvs \<and> map_of kvs ''error'' = Some v \<longrightarrow>
            res = (if v = JNull \<or> v = JBool False \<or> v = JNum 0 \<or> v = JStr []
                   then Returns (Fulfilled (data response))
                   else Returns (Rejected (Body (data response)))))"
proof -
  obtain m p where "invoke this env i = send this env m p"
    using invoke_is_send [of i] by blast
  with assms(1) have "send this env m p = (this', reqs, res)" by simp
  then show ?thesis
  proof (cases rule: send_cases)
    case (unserializable e)
    with assms(2) show ?thesis by simp
  next
    case (sent body headers req')
    with assms(2) have "req' = req" by simp
    with sent assms(3) have res: "res = Returns (then_catch env (Fulfilled response) Pending)"
      by simp
    have truthy: "res = Returns (Rejected (Body (data response)))"
      if "get_prop (data response) ''error'' = Inr err" "truthy err" for err
      using that res by (simp add: then_catch_def on_response_def reject_def)
    have field: "res = (if v = JNull \<or> v = JBool False \<or> v = JNum 0 \<or> v = JStr []
        then Returns (Fulfilled (data response))
        else Returns (Rejected (Body (data response))))"
      if "data response = JObj kvs" "map_of kvs ''error'' = Some v" for kvs v
      using that res
      by (simp add: then_catch_def on_response_def reject_def resolve_def truthy_falsy)
    from truthy field show ?thesis by blast
  qed
qed

text \<open>
  An instance of C2's theorem: the body \<^verbatim>\<open>{error: "Account not found"}\<close> rejects and the
  body \<^verbatim>\<open>{error: false}\<close> resolves.
\<close>

theorem error_field_decides_witness:
  "snd (snd (invoke example_client
       (responding 200 (JObj [(''error'', JStr ''Account not found'')]))
       (Account_balance (VStr ''nano_1abc''))))
     = Returns (Rejected (Body (JObj [(''error'', JStr ''Account not found'')])))
   \<and> snd (snd (invoke example_client (responding 200 (JObj [(''error'', JBool False)]))
       (Account_balance (VStr ''nano_1abc''))))
     = Returns (Fulfilled (JObj [(''error'', JBool False)]))"
proof -
  let ?body = "JObj [(''error'', JStr ''Account not found'')]"
  let ?body' = "JObj [(''error'', JBool False)]"
  let ?env = "responding 200 ?body"
  let ?env' = "responding 200 ?body'"
  have i: "invoke example_client ?env (Account_balance (VStr ''nano_1abc''))
      = (contacted_client, [example_request],
         Returns (then_catch ?env (axios_request ?env example_request) Pending))"
    by (rule example_invoke)
  have i': "invoke example_client ?env' (Account_balance (VStr ''nano_1abc''))
      = (contacted_client, [example_request],
         Returns (then_catch ?env' (axios_request ?env' example_request) Pending))"
    by (rule example_invoke)
  have m: "example_request \<in> set [example_request]" by simp
  have a: "axios_request ?env example_request = Fulfilled \<lparr>data = ?body, status = 200\<rparr>"
    by (simp add: responding_def)
  have a': "axios_request ?env' example_request = Fulfilled \<lparr>data = ?body', status = 200\<rparr>"
    by (simp add: responding_def)
  from error_field_decides [OF i m a]
  have "Returns (then_catch ?env (axios_request ?env example_request) Pending)
      = Returns (Rejected (Body ?body))"
    by simp
  moreover from error_field_decides [OF i' m a']
  have "Returns (then_catch ?env' (axios_request ?env' example_request) Pending)
      = Returns (Fulfilled ?body')"
    by simp
  ultimately show ?thesis using i i' by simp
qed

text \<open>
  C2 as stated fails: the body \<^verbatim>\<open>{error: ""}\<close> contains a top-level \<^verbatim>\<open>error\<close> field, the
  empty string is falsy, and the call resolves with the body.
\<close>

theorem empty_error_field_counterexample:
  "snd (snd (invoke example_client (responding 200 (JObj [(''error'', JStr [])]))
       (Account_balance (VStr ''nano_1abc''))))
     = Returns (Fulfilled (JObj [(''error'', JStr [])]))"
  unfolding example_invoke
  by (simp add: responding_def then_catch_def on_response_def resolve_def)

text \<open>
  C3, as the code has it. When a property of the parameter object cannot be serialized, the
  exception of \<^verbatim>\<open>_buildRPCBody\<close> is raised inside the promise executor: \<^verbatim>\<open>_send\<close> returns a
  promise rejected with the Error that wraps the serializer's TypeError, hands no request to
  the transport and leaves the client as it was. No method ever throws synchronously, and a
  call of any method that sends no request has been rejected in this way.
\<close>

theorem send_unserializable_rejects:
  assumes "distinct (map fst params)" and "serialize_props params = Inl e"
  shows "send this env method (Some params)
           = (this, [], Returns (Rejected (Exception (Error TypeError))))
       \<and> (\<forall>i this' reqs res. invoke this env i = (this', reqs, res) \<longrightarrow>
             (\<exists>p. res = Returns p)
             \<and> (reqs = [] \<longrightarrow>
                  this' = this \<and> res = Returns (Rejected (Exception (Error TypeError)))))"
proof -
  from assms(2) obtain p where p: "p \<in> set params" "serialize (snd p) = Inl e"
    using serialize_props_failsD by blast
  from p(1) assms(1) have "p \<in> set (envelope method params)"
    using set_copy_props_source [of params "[(''action'', VStr method)]"]
    by (auto simp: envelope_copy)
  with p(2) obtain e' where e': "serialize_props (envelope method params) = Inl e'"
    using serialize_props_fails by blast
  then have "e' = TypeError" by (rule serialize_TypeError)
  with e' have "buildRPCBody method (Some params) = Inl (Error TypeError)"
    by (simp add: buildRPCBody_def JSON_stringify_def)
  then have first: "send this env method (Some params)
      = (this, [], Returns (Rejected (Exception (Error TypeError))))"
    by (simp add: send_def)
  have second: "(\<exists>p. res = Returns p)
      \<and> (reqs = [] \<longrightarrow>
           this' = this \<and> res = Returns (Rejected (Exception (Error TypeError))))"
    if "invoke this env i = (this', reqs, res)" for i this' reqs res
  proof -
    obtain m q where "invoke this env i = send this env m q"
      using invoke_is_send [of i] by blast
    with that have "send this env m q = (this', reqs, res)" by simp
    then show ?thesis
    proof (cases rule: send_cases)
      case (unserializable e)
      then show ?thesis using buildRPCBody_error by blast
    next
      case (sent body headers req)
      then show ?thesis by simp
    qed
  qed
  from first second show ?thesis by blast
qed

text \<open>An instance of C3's theorem: \<^verbatim>\<open>account_history\<close> with a BigInt offset.\<close>

theorem send_unserializable_rejects_witness:
  "distinct (map fst [(''account'', VStr ''nano_1abc''), (''count'', VNum 2),
       (''offset'', VBigInt 10)])
   \<and> serialize_props [(''account'', VStr ''nano_1abc''), (''count'', VNum 2),
       (''offset'', VBigInt 10)] = Inl TypeError
   \<and> account_history example_client (responding 200 (JObj [])) (VStr ''nano_1abc'') (VNum 2)
       (Some [(''offset'', VBigInt 10)])
     = (example_client, [], Returns (Rejected (Exception (Error TypeError))))"
proof -
  let ?params = "[(''account'', VStr ''nano_1abc''), (''count'', VNum 2),
    (''offset'', VBigInt 10)]"
  have p: "object_literal
      [Prop ''account'' (VStr ''nano_1abc''),
       Prop ''count'' (default_param (VNum 2) (VNum 1)),
       Spread (Some [(''offset'', VBigInt 10)])] = ?params"
    by (simp add: object_literal_def copy_props_def default_param_def prop_simps)
  have d: "distinct (map fst ?params)" by simp
  have s: "serialize_props ?params = Inl TypeError" by simp
  from send_unserializable_rejects [OF d s, of example_client "responding 200 (JObj [])"
      "''account_history''"]
  have "send example_client (responding 200 (JObj [])) ''account_history'' (Some ?params)
      = (example_client, [], Returns (Rejected (Exception (Error TypeError))))"
    by (rule conjunct1)
  with d s show ?thesis by (simp add: account_history_def p)
qed

text \<open>
  C3 as stated fails: with a circular \<^verbatim>\<open>raw\<close> option, \<^verbatim>\<open>account_history\<close> returns a
  rejected promise; it does not throw.
\<close>

theorem serialization_failure_counterexample:
  "account_history example_client (responding 200 (JObj [])) (VStr ''nano_1abc'') (VNum 2)
       (Some [(''raw'', VCyclic)])
     = (example_client, [], Returns (Rejected (Exception (Error TypeError))))
   \<and> \<not> (\<exists>e. snd (snd (account_history example_client (responding 200 (JObj []))
        (VStr ''nano_1abc'') (VNum 2) (Some [(''raw'', VCyclic)]))) = Throws e)"
  by (simp add: account_history_def send_def buildRPCBody_def envelope_def object_literal_def
      JSON_stringify_def copy_props_def default_param_def prop_simps)

text \<open>
  C4, as the code has it. No call changes the endpoint or the custom headers. A call that
  sends a request overwrites \<^verbatim>\<open>defaultHeaders\<close> with the defaults merged with the custom
  headers; a call whose body cannot be serialized leaves it alone.
\<close>

theorem config_frame:
  assumes "invoke this env i = (this', reqs, res)"
  shows "nodeAddress this' = nodeAddress this
       \<and> requestHeaders this' = requestHeaders this
       \<and> defaultHeaders this'
           = (if reqs = [] then defaultHeaders this
              else Object_assign (defaultHeaders this) (requestHeaders this))"
proof -
  obtain m p where "invoke this env i = send this env m p"
    using invoke_is_send [of i] by blast
  with assms have "send this env m p = (this', reqs, res)" by simp
  then show ?thesis by (cases rule: send_cases) simp_all
qed

text \<open>An instance of C4's theorem: the example client before and after its first request.\<close>

theorem config_frame_witness:
  "nodeAddress contacted_client = nodeAddress example_client
   \<and> requestHeaders contacted_client = requestHeaders example_client
   \<and> defaultHeaders contacted_client
       = Object_assign (defaultHeaders example_client) (requestHeaders example_client)
   \<and> defaultHeaders contacted_client
       = [(''content-type'', VStr ''text/plain''), (''authorization'', VStr ''secret'')]"
  using config_frame [OF example_invoke [of "responding 200 (JObj [])"]]
  by (simp add: contacted_client_def example_client_def Object_assign_def assign_prop_def
      prop_simps)

text \<open>
  C4 as stated fails: the first request of the example client, built by the constructor from
  the example options, changes its \<^verbatim>\<open>defaultHeaders\<close>.
\<close>

theorem defaultHeaders_counterexample:
  "constructor example_options = Returns example_client
   \<and> defaultHeaders (fst (invoke example_client (responding 200 (JObj []))
        (Account_balance (VStr ''nano_1abc''))))
     \<noteq> defaultHeaders example_client"
  unfolding example_invoke
  by (simp add: constructor_def example_options_def example_client_def
      contacted_client_def initial_defaultHeaders_def)



text \<open>
  C6. Whatever count and sorting are, \<^verbatim>\<open>representatives\<close> sends the body
  \<^verbatim>\<open>{action: "representatives"}\<close>, and the whole call is the one made with both arguments
  omitted.
\<close>

theorem representatives_body:
  "request_bodies (representatives this env count sorting)
     = [JObj [(''action'', JStr ''representatives'')]]
   \<and> representatives this env count sorting = representatives this env VUndefined VUndefined"
  by (simp add: representatives_def request_bodies_send buildRPCBody_None)

text \<open>
  C7, as the code has it. A positional parameter with a declared default reaches the
  envelope with that default when it is omitted and with the caller's value otherwise,
  each parameter on its own: \<^verbatim>\<open>count\<close> defaults to 1 in \<^verbatim>\<open>chain\<close>, \<^verbatim>\<open>frontiers\<close>,
  \<^verbatim>\<open>history\<close>, \<^verbatim>\<open>ledger\<close> and \<^verbatim>\<open>account_history\<close>, and the flags of \<^verbatim>\<open>ledger\<close> and
  \<^verbatim>\<open>blocks_info\<close> default to false. An options object (\<^verbatim>\<open>account_history\<close>,
  \<^verbatim>\<open>account_info\<close>) has no defaults: a key it does not carry is absent from the envelope,
  unless it is \<^verbatim>\<open>action\<close> or the name of a positional parameter, which then has the
  positional value.
\<close>

theorem positional_defaults:
  "request_bodies (chain this env (embed blk) (optional_arg count))
     = [JObj [(''action'', JStr ''chain''), (''block'', blk),
              (''count'', case count of None \<Rightarrow> JNum 1 | Some j \<Rightarrow> j)]]
   \<and> request_bodies (frontiers this env (embed account) (optional_arg count))
     = [JObj [(''action'', JStr ''frontiers''), (''account'', account),
              (''count'', case count of None \<Rightarrow> JNum 1 | Some j \<Rightarrow> j)]]
   \<and> request_bodies (history this env (embed hash) (optional_arg count))
     = [JObj [(''action'', JStr ''history''), (''hash'', hash),
              (''count'', case count of None \<Rightarrow> JNum 1 | Some j \<Rightarrow> j)]]
   \<and> request_bodies (ledger this env (embed account) (optional_arg count)
        (optional_arg representative) (optional_arg weight) (optional_arg pending)
        (optional_arg sorting))
     = [JObj [(''action'', JStr ''ledger''), (''account'', account),
              (''count'', case count of None \<Rightarrow> JNum 1 | Some j \<Rightarrow> j),
              (''representative'', case representative of None \<Rightarrow> JBool False | Some j \<Rightarrow> j),
              (''weight'', case weight of None \<Rightarrow> JBool False | Some j \<Rightarrow> j),
              (''pending'', case pending of None \<Rightarrow> JBool False | Some j \<Rightarrow> j),
              (''sorting'', case sorting of None \<Rightarrow> JBool False | Some j \<Rightarrow> j)]]
   \<and> request_bodies (blocks_info this env (embed hashes) (optional_arg source)
        (optional_arg pending))
     = [JObj [(''action'', JStr ''blocks_info''), (''hashes'', hashes),
              (''source'', case source of None \<Rightarrow> JBool False | Some j \<Rightarrow> j),
              (''pending'', case pending of None \<Rightarrow> JBool False | Some j \<Rightarrow> j)]]
   \<and> (\<exists>fields. request_bodies (account_history this env (embed account)
                    (optional_arg count) (map_option embed_props params)) = [JObj fields]
         \<and> (\<forall>k. k \<notin> fst ` set (case params of None \<Rightarrow> [] | Some p \<Rightarrow> p) \<longrightarrow>
               map_of fields k
                 = (if k = ''action'' then Some (JStr ''account_history'')
                    else if k = ''account'' then Some account
                    else if k = ''count''
                      then Some (case count of None \<Rightarrow> JNum 1 | Some j \<Rightarrow> j)
                    else None)))
   \<and> (\<exists>fields. request_bodies (account_info this env (embed account)
                    (map_option embed_props params)) = [JObj fields]
         \<and> (\<forall>k. k \<notin> fst ` set (case params of None \<Rightarrow> [] | Some p \<Rightarrow> p) \<longrightarrow>
               map_of fields k
                 = (if k = ''action'' then Some (JStr ''account_info'')
                    else if k = ''account'' then Some account
                    else None)))"
proof -
  let ?opts = "case params of None \<Rightarrow> [] | Some p \<Rightarrow> p"
  have lookup: "map_of (copy_props [(''action'', a)] (copy_props positional ?opts)) k
      = (case map_of positional k of
           Some v \<Rightarrow> Some v
         | None \<Rightarrow> if k = ''action'' then Some a else None)"
    if "distinct (map fst positional)" "k \<notin> fst ` set ?opts" for a positional k
  proof -
    have "distinct (map fst (copy_props positional ?opts))"
      using that(1) by (simp add: distinct_copy_props)
    then have "map_of (copy_props [(''action'', a)] (copy_props positional ?opts)) k
        = (case map_of (copy_props positional ?opts) k of
             Some v \<Rightarrow> Some v
           | None \<Rightarrow> if k = ''action'' then Some a else None)"
      by (rule lookup_merged_action)
    then show ?thesis using that(2) by (simp add: map_of_copy_props_other)
  qed
  have history: "map_of (copy_props [(''action'', JStr ''account_history'')]
        (copy_props [(''account'', account),
           (''count'', case count of None \<Rightarrow> JNum 1 | Some j \<Rightarrow> j)] ?opts)) k
      = (if k = ''action'' then Some (JStr ''account_history'')
         else if k = ''account'' then Some account
         else if k = ''count''
           then Some (case count of None \<Rightarrow> JNum 1 | Some j \<Rightarrow> j)
         else None)"
    if "k \<notin> fst ` set ?opts" for k
    using that by (simp add: lookup)
  have info: "map_of (copy_props [(''action'', JStr ''account_info'')]
        (copy_props [(''account'', account)] ?opts)) k
      = (if k = ''action'' then Some (JStr ''account_info'')
         else if k = ''account'' then Some account
         else None)"
    if "k \<notin> fst ` set ?opts" for k
    using that by (simp add: lookup)
  from history info show ?thesis
    by (simp only: chain_body frontiers_body history_body ledger_body blocks_info_body
        account_history_body account_info_body) blast
qed

text \<open>
  An instance of C7's theorem: \<^verbatim>\<open>ledger\<close> with a count and nothing else, \<^verbatim>\<open>blocks_info\<close>
  with \<^verbatim>\<open>source\<close> and no \<^verbatim>\<open>pending\<close>, and \<^verbatim>\<open>account_history\<close> with the option \<^verbatim>\<open>raw\<close>, no
  count and no \<^verbatim>\<open>reverse\<close>.
\<close>

theorem positional_defaults_witness:
  "request_bodies (ledger example_client (responding 200 (JObj [])) (VStr ''nano_1abc'')
        (VNum 5) VUndefined VUndefined VUndefined VUndefined)
     = [JObj [(''action'', JStr ''ledger''), (''account'', JStr ''nano_1abc''),
              (''count'', JNum 5), (''representative'', JBool False),
              (''weight'', JBool False), (''pending'', JBool False),
              (''sorting'', JBool False)]]
   \<and> request_bodies (blocks_info example_client (responding 200 (JObj [])) (VStr ''A1B2'')
        (VBool True) VUndefined)
     = [JObj [(''action'', JStr ''blocks_info''), (''hashes'', JStr ''A1B2''),
              (''source'', JBool True), (''pending'', JBool False)]]
   \<and> ''count'' \<notin> fst ` set [(''raw'', JBool True)]
   \<and> ''reverse'' \<notin> fst ` set [(''raw'', JBool True)]
   \<and> (\<exists>fields. request_bodies (account_history example_client (responding 200 (JObj []))
          (VStr ''nano_1abc'') VUndefined (Some [(''raw'', VBool True)])) = [JObj fields]
        \<and> map_of fields ''count'' = Some (JNum 1)
        \<and> map_of fields ''reverse'' = None)"
proof -
  let ?env = "responding 200 (JObj [])"
  note l = positional_defaults [of example_client ?env "JStr ''A1B2''" "Some (JNum 5)"
      "JStr ''nano_1abc''" "JStr ''A1B2''" None None None None "JStr ''A1B2''"
      "Some (JBool True)" "Some [(''raw'', JBool True)]"]
  note t = positional_defaults [of example_client ?env "JStr ''A1B2''" None
      "JStr ''nano_1abc''" "JStr ''A1B2''" None None None None "JStr ''A1B2''"
      None "Some [(''raw'', JBool True)]"]
  from l have "request_bodies (ledger example_client ?env (VStr ''nano_1abc'')
        (VNum 5) VUndefined VUndefined VUndefined VUndefined)
      = [JObj [(''action'', JStr ''ledger''), (''account'', JStr ''nano_1abc''),
              (''count'', JNum 5), (''representative'', JBool False),
              (''weight'', JBool False), (''pending'', JBool False),
              (''sorting'', JBool False)]]"
    by (simp add: optional_arg_def)
  moreover from l have "request_bodies (blocks_info example_client ?env (VStr ''A1B2'')
        (VBool True) VUndefined)
      = [JObj [(''action'', JStr ''blocks_info''), (''hashes'', JStr ''A1B2''),
              (''source'', JBool True), (''pending'', JBool False)]]"
    by (simp add: optional_arg_def)
  moreover from t have "\<exists>fields. request_bodies (account_history example_client ?env
          (VStr ''nano_1abc'') VUndefined (Some [(''raw'', VBool True)])) = [JObj fields]
        \<and> map_of fields ''count'' = Some (JNum 1)
        \<and> map_of fields ''reverse'' = None"
    by (simp add: optional_arg_def embed_props_def) force
  ultimately show ?thesis by simp
qed

text \<open>
  C7 as stated fails: a flag of an options object has no default. With \<^verbatim>\<open>raw\<close> omitted the
  envelope of \<^verbatim>\<open>account_history\<close> has no \<^verbatim>\<open>raw\<close> field, and with \<^verbatim>\<open>pending\<close> omitted the
  envelope of \<^verbatim>\<open>account_info\<close> has no \<^verbatim>\<open>pending\<close> field.
\<close>

theorem omitted_flag_counterexample:
  "request_bodies (account_history example_client (responding 200 (JObj []))
       (VStr ''nano_1abc'') VUndefined None)
     = [JObj [(''action'', JStr ''account_history''), (''account'', JStr ''nano_1abc''),
              (''count'', JNum 1)]]
   \<and> map_of [(''action'', JStr ''account_history''), (''account'', JStr ''nano_1abc''),
              (''count'', JNum 1)] ''raw'' \<noteq> Some (JBool False)
   \<and> request_bodies (account_info example_client (responding 200 (JObj []))
       (VStr ''nano_1abc'') (Some []))
     = [JObj [(''action'', JStr ''account_info''), (''account'', JStr ''nano_1abc'')]]
   \<and> map_of [(''action'', JStr ''account_info''), (''account'', JStr ''nano_1abc'')]
        ''pending'' \<noteq> Some (JBool False)"
  by (simp add: account_history_def account_info_def request_bodies_send buildRPCBody_def
      envelope_def object_literal_def JSON_stringify_def copy_props_def default_param_def
      prop_simps)

text \<open>
  C8. A call whose response body has no top-level \<^verbatim>\<open>error\<close> field should resolve with that
  body. For the body \<^verbatim>\<open>null\<close> it does not: \<^verbatim>\<open>response.data.error\<close> is read without a guard,
  the read throws inside the callback, and the call of any method rejects with the
  TypeError. The sibling bodies \<^verbatim>\<open>0\<close>, \<^verbatim>\<open>false\<close>, \<^verbatim>\<open>[]\<close> and \<^verbatim>\<open>{}\<close>, which have no such field
  either, resolve unchanged.
\<close>

theorem null_body_rejects:
  assumes "invoke this env i = (this', reqs, res)"
    and "req \<in> set reqs"
    and "axios_request env req = Fulfilled response"
  shows "(data response = JNull \<longrightarrow> res = Returns (Rejected (Exception TypeError)))
       \<and> (data response = JNum 0 \<or> data response = JBool False \<or> data response = JArr []
            \<or> data response = JObj [] \<longrightarrow> res = Returns (Fulfilled (data response)))"
proof -
  obtain m p where "invoke this env i = send this env m p"
    using invoke_is_send [of i] by blast
  with assms(1) have "send this env m p = (this', reqs, res)" by simp
  then show ?thesis
  proof (cases rule: send_cases)
    case (unserializable e)
    with assms(2) show ?thesis by simp
  next
    case (sent body headers req')
    with assms(2) have "req' = req" by simp
    with sent assms(3) show ?thesis
      by (auto simp: then_catch_def on_response_def resolve_def reject_def)
  qed
qed

text \<open>
  An instance of C8's theorem: \<^verbatim>\<open>account_balance\<close> answered with the body \<^verbatim>\<open>null\<close>, and with
  the body \<^verbatim>\<open>[]\<close>.
\<close>

theorem null_body_rejects_witness:
  "snd (snd (invoke example_client (responding 200 JNull)
       (Account_balance (VStr ''nano_1abc''))))
     = Returns (Rejected (Exception TypeError))
   \<and> snd (snd (invoke example_client (responding 200 (JArr []))
       (Account_balance (VStr ''nano_1abc''))))
     = Returns (Fulfilled (JArr []))"
proof -
  let ?env = "responding 200 JNull"
  let ?env' = "responding 200 (JArr [])"
  have i: "invoke example_client ?env (Account_balance (VStr ''nano_1abc''))
      = (contacted_client, [example_request],
         Returns (then_catch ?env (axios_request ?env example_request) Pending))"
    by (rule example_invoke)
  have i': "invoke example_client ?env' (Account_balance (VStr ''nano_1abc''))
      = (contacted_client, [example_request],
         Returns (then_catch ?env' (axios_request ?env' example_request) Pending))"
    by (rule example_invoke)
  have m: "example_request \<in> set [example_request]" by simp
  have a: "axios_request ?env example_request = Fulfilled \<lparr>data = JNull, status = 200\<rparr>"
    by (simp add: responding_def)
  have a': "axios_request ?env' example_request
      = Fulfilled \<lparr>data = JArr [], status = 200\<rparr>"
    by (simp add: responding_def)
  from null_body_rejects [OF i m a]
  have "Returns (then_catch ?env (axios_request ?env example_request) Pending)
      = Returns (Rejected (Exception TypeError))"
    by simp
  moreover from null_body_rejects [OF i' m a']
  have "Returns (then_catch ?env' (axios_request ?env' example_request) Pending)
      = Returns (Fulfilled (JArr []))"
    by simp
  ultimately show ?thesis using i i' by simp
qed

text \<open>
  C9. The constructor returns a client for every argument, also for \<^verbatim>\<open>undefined\<close>; missing
  headers become the empty object and a missing url leaves \<^verbatim>\<open>nodeAddress\<close> undefined.
\<close>

theorem constructor_total:
  "(\<forall>options. \<exists>c. constructor options = Returns c)
   \<and> constructor None
       = Returns \<lparr>nodeAddress = None, requestHeaders = [],
                  defaultHeaders = initial_defaultHeaders\<rparr>
   \<and> constructor (Some \<lparr>opt_url = u, opt_requestHeaders = None\<rparr>)
       = Returns \<lparr>nodeAddress = u, requestHeaders = [],
                  defaultHeaders = initial_defaultHeaders\<rparr>
   \<and> constructor (Some \<lparr>opt_url = None, opt_requestHeaders = h\<rparr>)
       = Returns \<lparr>nodeAddress = None,
                  requestHeaders = (case h of None \<Rightarrow> [] | Some x \<Rightarrow> x),
                  defaultHeaders = initial_defaultHeaders\<rparr>"
  by (simp add: constructor_def)

text \<open>
  C10. The envelope is \<^verbatim>\<open>{action: a}\<close> overridden by the parameters: for parameters that are
  JSON values with distinct keys, the body is that object, and looking a key up in it gives
  the parameter's value when there is one, also for the key \<^verbatim>\<open>action\<close>, and the action
  name only when the parameters have no \<^verbatim>\<open>action\<close> of their own.
\<close>

theorem envelope_merge:
  assumes "distinct (map fst params)"
  shows "envelope action params = copy_props [(''action'', VStr action)] params
       \<and> (\<forall>k. map_of (envelope action params) k
             = (case map_of params k of
                  Some v \<Rightarrow> Some v
                | None \<Rightarrow> if k = ''action'' then Some (VStr action) else None))
       \<and> (\<forall>js. params = embed_props js \<longrightarrow>
             buildRPCBody action (Some params)
               = Inr (JObj (copy_props [(''action'', JStr action)] js))
             \<and> (\<forall>k. map_of (copy_props [(''action'', JStr action)] js) k
                   = (case map_of js k of
                        Some v \<Rightarrow> Some v
                      | None \<Rightarrow> if k = ''action'' then Some (JStr action) else None)))"
proof -
  have "\<forall>k. map_of (envelope action params) k
      = (case map_of params k of
           Some v \<Rightarrow> Some v
         | None \<Rightarrow> if k = ''action'' then Some (VStr action) else None)"
    using assms by (simp add: envelope_copy lookup_merged_action)
  moreover have "\<forall>k. map_of (copy_props [(''action'', JStr action)] js) k
      = (case map_of js k of
           Some v \<Rightarrow> Some v
         | None \<Rightarrow> if k = ''action'' then Some (JStr action) else None)"
    if "params = embed_props js" for js
  proof -
    have "map fst (embed_props js) = map fst js"
      by (induction js) (simp_all add: embed_props_Nil embed_props_Cons)
    with assms that have "distinct (map fst js)" by simp
    then show ?thesis by (simp add: lookup_merged_action)
  qed
  ultimately show ?thesis by (simp add: envelope_copy buildRPCBody_embed)
qed

text \<open>An instance of C10's theorem: a parameter named \<^verbatim>\<open>action\<close> replaces the action tag.\<close>

theorem envelope_merge_witness:
  "distinct (map fst [(''action'', JStr ''stop''), (''account'', JStr ''nano_1abc'')])
   \<and> buildRPCBody ''account_balance''
       (Some [(''action'', VStr ''stop''), (''account'', VStr ''nano_1abc'')])
     = Inr (JObj [(''action'', JStr ''stop''), (''account'', JStr ''nano_1abc'')])"
proof -
  let ?js = "[(''action'', JStr ''stop''), (''account'', JStr ''nano_1abc'')]"
  let ?params = "[(''action'', VStr ''stop''), (''account'', VStr ''nano_1abc'')]"
  have d: "distinct (map fst ?params)" by simp
  have e: "?params = embed_props ?js" by (simp add: embed_props_def)
  from envelope_merge [OF d, of "''account_balance''"] e
  have "buildRPCBody ''account_balance'' (Some ?params)
      = Inr (JObj (copy_props [(''action'', JStr ''account_balance'')] ?js))"
    by blast
  then show ?thesis by (simp add: copy_props_def prop_simps)
qed

end
